theory Spec2Isabelle
  imports Complex_Main "HOL-Library.Word"
begin

section \<open>The technology record\<close>

text \<open>
  Modelled from the spec: the class \<open>db::Technology\<close> (dbTechnology.h) is not among the
  sources; only its scripting binding is. The record keeps the textual attributes of the
  data model: the name (the registry key), description, group label, the two base paths,
  the combined default-grid text and the layer-properties file path. Numeric and
  structured attributes (database unit, option bundles, components) take no part in the
  functions modelled below and are left out.
\<close>

record Technology =
  name :: string
  description :: string
  grp :: string
  explicit_base_path :: string
  default_base_path :: string
  default_grids :: string
  layer_properties_file :: string

text \<open>
  Modelled from the spec: the default constructor \<open>db::Technology tech;\<close> is not among the
  sources; a record is "created empty".
\<close>

definition Technology_new :: Technology where
  "Technology_new =
     \<lparr> name = [], description = [], grp = [], explicit_base_path = [],
       default_base_path = [], default_grids = [], layer_properties_file = [] \<rparr>"

text \<open>
  Modelled from the spec: the setters \<open>db::Technology::set_name\<close> and
  \<open>db::Technology::set_default_grids\<close> are not among the sources. They store the name and
  the combined grid text ("a compact textual encoding stored on the technology record").
\<close>

definition set_name :: "string \<Rightarrow> Technology \<Rightarrow> Technology" where
  "set_name n tech = tech\<lparr>name := n\<rparr>"

definition set_default_grids :: "string \<Rightarrow> Technology \<Rightarrow> Technology" where
  "set_default_grids r tech = tech\<lparr>default_grids := r\<rparr>"

section \<open>The registry\<close>

text \<open>
  The process-wide singleton \<open>db::Technologies::instance ()\<close> is passed explicitly: a
  registry state is the sequence of stored records in the registry's internal order.
  A \<open>db::Technology *\<close> into the registry is the position of the stored copy; the null
  pointer is \<open>None\<close>.
\<close>

type_synonym Technologies = "Technology list"

datatype error = DuplicateName string

text \<open>
  Modelled from the spec: \<open>db::Technologies::technology_by_name\<close> is not among the sources.
  "The registered record reference, or an absent/null result if no such name exists."
\<close>

fun Technologies_technology_by_name :: "string \<Rightarrow> Technologies \<Rightarrow> nat option" where
  "Technologies_technology_by_name n [] = None"
| "Technologies_technology_by_name n (t # ts) =
     (if name t = n then Some 0
      else map_option Suc (Technologies_technology_by_name n ts))"

text \<open>
  Modelled from the spec: \<open>db::Technologies::has_technology\<close> is not among the sources.
  It tells whether a record of that name is registered.
\<close>

fun Technologies_has_technology :: "string \<Rightarrow> Technologies \<Rightarrow> bool" where
  "Technologies_has_technology n [] = False"
| "Technologies_has_technology n (t # ts) =
     (if name t = n then True else Technologies_has_technology n ts)"

text \<open>
  Modelled from the spec: \<open>db::Technologies::add_new\<close> is not among the sources. It
  "inserts a copy of the given record into the registry under its own name field", it
  "returns a reference to the stored copy", and "on a name collision signals a failure to
  the caller rather than silently overwriting". The result pairs the outcome with the
  registry state after the call.
\<close>

definition Technologies_add_new ::
    "Technology \<Rightarrow> Technologies \<Rightarrow> (error + nat) \<times> Technologies" where
  "Technologies_add_new tech reg =
     (if Technologies_has_technology (name tech) reg
      then (Inl (DuplicateName (name tech)), reg)
      else (Inr (length reg), reg @ [tech]))"

text \<open>
  Modelled from the spec: \<open>db::Technologies::remove\<close> is not among the sources. It
  "deletes the entry" of that name; on a name that is not registered the model leaves the
  registry as it is (the spec leaves that case open).
\<close>

fun Technologies_remove :: "string \<Rightarrow> Technologies \<Rightarrow> Technologies" where
  "Technologies_remove n [] = []"
| "Technologies_remove n (t # ts) =
     (if name t = n then ts else t # Technologies_remove n ts)"

text \<open>
  Modelled from the spec: \<open>db::Technologies::clear\<close> is not among the sources. It
  "empties the registry entirely".
\<close>

definition Technologies_clear :: "Technologies \<Rightarrow> Technologies" where
  "Technologies_clear reg = []"

text \<open>
  Name uniqueness is enforced by the registry: the states the registry can be in hold no
  two records of one name.
\<close>

definition registry_ok :: "Technologies \<Rightarrow> bool" where
  "registry_ok reg = distinct (map name reg)"

section \<open>The forwarding functions of gsiDeclDbTechnologies.cc\<close>

text \<open>
  \<open>technology_names\<close> walks the registry from \<open>begin ()\<close> to \<open>end ()\<close> and pushes each
  name onto the result vector.
\<close>

fun technology_names_loop :: "Technologies \<Rightarrow> string list \<Rightarrow> string list" where
  "technology_names_loop [] names = names"
| "technology_names_loop (t # ts) names = technology_names_loop ts (names @ [name t])"

definition technology_names :: "Technologies \<Rightarrow> string list" where
  "technology_names reg = technology_names_loop reg []"

definition technology_by_name :: "string \<Rightarrow> Technologies \<Rightarrow> nat option" where
  "technology_by_name n reg = Technologies_technology_by_name n reg"

definition create_technology ::
    "string \<Rightarrow> Technologies \<Rightarrow> (error + nat) \<times> Technologies" where
  "create_technology n reg =
     (let tech = Technology_new;
          tech = set_name n tech
      in Technologies_add_new tech reg)"

definition register_technology ::
    "Technology \<Rightarrow> Technologies \<Rightarrow> (error + nat) \<times> Technologies" where
  "register_technology tech reg = Technologies_add_new tech reg"

definition remove_technology :: "string \<Rightarrow> Technologies \<Rightarrow> Technologies" where
  "remove_technology n reg = Technologies_remove n reg"

definition has_technology :: "string \<Rightarrow> Technologies \<Rightarrow> bool" where
  "has_technology n reg = Technologies_has_technology n reg"

definition clear_technologies :: "Technologies \<Rightarrow> Technologies" where
  "clear_technologies reg = Technologies_clear reg"

section \<open>The grid-list setters of gsiDeclDbTechnologies.cc\<close>

text \<open>
  \<open>tl::micron_to_string\<close> and \<open>db::coord_traits<db::DCoord>::equals\<close> are not among the
  sources: both are parameters of the model, and \<open>'g\<close> stands for the C++ \<open>double\<close>.
  The loop of \<open>set_default_grid_list2\<close> runs over the vector with the string \<open>r\<close> as its
  state.
\<close>

fun set_default_grid_list2_loop ::
    "('g \<Rightarrow> string) \<Rightarrow> ('g \<Rightarrow> 'g \<Rightarrow> bool) \<Rightarrow> 'g \<Rightarrow> 'g list \<Rightarrow> string \<Rightarrow> string" where
  "set_default_grid_list2_loop micron_to_string equals default_grid [] r = r"
| "set_default_grid_list2_loop micron_to_string equals default_grid (g # gs) r =
     (let r = (if r \<noteq> [] then r @ '','' else r);
          r = r @ micron_to_string g;
          r = (if equals g default_grid then r @ ''!'' else r)
      in set_default_grid_list2_loop micron_to_string equals default_grid gs r)"

definition set_default_grid_list2 ::
    "('g \<Rightarrow> string) \<Rightarrow> ('g \<Rightarrow> 'g \<Rightarrow> bool) \<Rightarrow> Technology \<Rightarrow> 'g list \<Rightarrow> 'g \<Rightarrow> Technology" where
  "set_default_grid_list2 micron_to_string equals tech grids default_grid =
     set_default_grids
       (set_default_grid_list2_loop micron_to_string equals default_grid grids []) tech"

definition set_default_grid_list ::
    "('g::zero \<Rightarrow> string) \<Rightarrow> ('g \<Rightarrow> 'g \<Rightarrow> bool) \<Rightarrow> Technology \<Rightarrow> 'g list \<Rightarrow> Technology" where
  "set_default_grid_list micron_to_string equals tech grids =
     set_default_grid_list2 micron_to_string equals tech grids 0"

subsection \<open>The encoding as the specification words it\<close>

text \<open>
  The specification's encoder: each value's micron text, with the marker directly after
  the text of the entries equal to the default grid, joined by commas in input order.
\<close>

definition grid_entry :: "('g \<Rightarrow> string) \<Rightarrow> ('g \<Rightarrow> 'g \<Rightarrow> bool) \<Rightarrow> 'g \<Rightarrow> 'g \<Rightarrow> string" where
  "grid_entry micron_to_string equals default_grid g =
     micron_to_string g @ (if equals g default_grid then ''!'' else [])"

fun join_commas :: "string list \<Rightarrow> string" where
  "join_commas [] = []"
| "join_commas [e] = e"
| "join_commas (e # es) = e @ '','' @ join_commas es"

definition encode_spec ::
    "('g \<Rightarrow> string) \<Rightarrow> ('g \<Rightarrow> 'g \<Rightarrow> bool) \<Rightarrow> 'g list \<Rightarrow> 'g \<Rightarrow> string" where
  "encode_spec micron_to_string equals grids default_grid =
     join_commas (map (grid_entry micron_to_string equals default_grid) grids)"

text \<open>The number of default-grid markers in a stored grid text.\<close>

definition marker_count :: "string \<Rightarrow> nat" where
  "marker_count s = count_list s CHR ''!''"

text \<open>An entry of the grid text is flagged when the marker is its last character.\<close>

definition entry_flagged :: "string \<Rightarrow> bool" where
  "entry_flagged e = (case rev e of [] \<Rightarrow> False | c # cs \<Rightarrow> c = CHR ''!'')"

subsection \<open>Sample instances of the two parameters\<close>

text \<open>
  The theorems below hold for every formatting function and every comparison. Where an
  example needs the two, it takes a comparison within a tolerance on the reals (the
  specification calls the coordinate system's comparison "tolerance-aware, not
  bit-exact") and the decimal texts of the handful of grid values it uses.
\<close>

definition tolerance_equals :: "real \<Rightarrow> real \<Rightarrow> real \<Rightarrow> bool" where
  "tolerance_equals eps a b = (\<bar>a - b\<bar> < eps)"

definition sample_micron_to_string :: "real \<Rightarrow> string" where
  "sample_micron_to_string g =
     (if g = 1 then ''1''
      else if g = 1 / 2 then ''0.5''
      else if g = 1 / 1000 then ''0.001''
      else ''0'')"

section \<open>The XML adaptor of gsiDeclDbTechnologies.cc\<close>

text \<open>
  Modelled from the spec: \<open>tl::XMLStruct<db::Technology>::write\<close> and the element table
  \<open>db::Technology::xml_elements ()\<close> are not among the sources. The writer "renders the
  record under a fixed root element name using the schema declared by the record type's
  own XML-element descriptor table"; the table is a parameter, one writer per child
  element.
\<close>

definition XMLStruct_write :: "string \<Rightarrow> ('obj \<Rightarrow> string) list \<Rightarrow> 'obj \<Rightarrow> string" where
  "XMLStruct_write root_name elements obj =
     ''<'' @ root_name @ ''>'' @ concat (map (\<lambda>e. e obj) elements) @
     ''</'' @ root_name @ ''>''"

text \<open>The record pointer is \<open>None\<close> when null.\<close>

definition technology_to_xml :: "(Technology \<Rightarrow> string) list \<Rightarrow> Technology option \<Rightarrow> string" where
  "technology_to_xml xml_elements tech =
     (case tech of
        None \<Rightarrow> []
      | Some t \<Rightarrow> XMLStruct_write ''technology'' xml_elements t)"

section \<open>The adaptor class of gsiDeclQHoverEvent.cc\<close>

text \<open>
  The base class \<open>QHoverEvent\<close> belongs to the GUI toolkit: its state is the type \<open>'e\<close>
  and its implementations of the five virtual methods are a parameter. \<open>quint64\<close> is a
  64-bit word.
\<close>

record 'e QHoverEvent =
  QHoverEvent_isBeginEvent :: "'e \<Rightarrow> bool"
  QHoverEvent_isEndEvent :: "'e \<Rightarrow> bool"
  QHoverEvent_isUpdateEvent :: "'e \<Rightarrow> bool"
  QHoverEvent_setAccepted :: "bool \<Rightarrow> 'e \<Rightarrow> 'e"
  QHoverEvent_setTimestamp :: "64 word \<Rightarrow> 'e \<Rightarrow> 'e"

text \<open>
  \<open>gsi::Callback\<close> belongs to the binding runtime: \<open>can_issue\<close> tells whether a script
  reimplementation is installed and callable, and \<open>issue\<close> runs it, handing it the
  adaptor's \<open>cbs_\<close> method (the way back to the base implementation), the argument and
  the event; it yields the result and the event afterwards.
\<close>

record ('e, 'a, 'r) Callback =
  can_issue :: bool
  issue :: "('a \<Rightarrow> 'e \<Rightarrow> 'r \<times> 'e) \<Rightarrow> 'a \<Rightarrow> 'e \<Rightarrow> 'r \<times> 'e"

record 'e QHoverEvent_Adaptor =
  base :: 'e
  cb_isBeginEvent_c0_0 :: "('e, unit, bool) Callback"
  cb_isEndEvent_c0_0 :: "('e, unit, bool) Callback"
  cb_isUpdateEvent_c0_0 :: "('e, unit, bool) Callback"
  cb_setAccepted_864_0 :: "('e, bool, unit) Callback"
  cb_setTimestamp_1103_0 :: "('e, 64 word, unit) Callback"

definition cbs_isBeginEvent_c0_0 :: "'e QHoverEvent \<Rightarrow> unit \<Rightarrow> 'e \<Rightarrow> bool \<times> 'e" where
  "cbs_isBeginEvent_c0_0 Q u e = (QHoverEvent_isBeginEvent Q e, e)"

definition isBeginEvent :: "'e QHoverEvent \<Rightarrow> 'e QHoverEvent_Adaptor \<Rightarrow> bool" where
  "isBeginEvent Q a =
     (if can_issue (cb_isBeginEvent_c0_0 a)
      then fst (issue (cb_isBeginEvent_c0_0 a) (cbs_isBeginEvent_c0_0 Q) () (base a))
      else QHoverEvent_isBeginEvent Q (base a))"

definition cbs_isEndEvent_c0_0 :: "'e QHoverEvent \<Rightarrow> unit \<Rightarrow> 'e \<Rightarrow> bool \<times> 'e" where
  "cbs_isEndEvent_c0_0 Q u e = (QHoverEvent_isEndEvent Q e, e)"

definition isEndEvent :: "'e QHoverEvent \<Rightarrow> 'e QHoverEvent_Adaptor \<Rightarrow> bool" where
  "isEndEvent Q a =
     (if can_issue (cb_isEndEvent_c0_0 a)
      then fst (issue (cb_isEndEvent_c0_0 a) (cbs_isEndEvent_c0_0 Q) () (base a))
      else QHoverEvent_isEndEvent Q (base a))"

definition cbs_isUpdateEvent_c0_0 :: "'e QHoverEvent \<Rightarrow> unit \<Rightarrow> 'e \<Rightarrow> bool \<times> 'e" where
  "cbs_isUpdateEvent_c0_0 Q u e = (QHoverEvent_isUpdateEvent Q e, e)"

definition isUpdateEvent :: "'e QHoverEvent \<Rightarrow> 'e QHoverEvent_Adaptor \<Rightarrow> bool" where
  "isUpdateEvent Q a =
     (if can_issue (cb_isUpdateEvent_c0_0 a)
      then fst (issue (cb_isUpdateEvent_c0_0 a) (cbs_isUpdateEvent_c0_0 Q) () (base a))
      else QHoverEvent_isUpdateEvent Q (base a))"

definition cbs_setAccepted_864_0 :: "'e QHoverEvent \<Rightarrow> bool \<Rightarrow> 'e \<Rightarrow> unit \<times> 'e" where
  "cbs_setAccepted_864_0 Q accepted e = ((), QHoverEvent_setAccepted Q accepted e)"

definition setAccepted ::
    "'e QHoverEvent \<Rightarrow> bool \<Rightarrow> 'e QHoverEvent_Adaptor \<Rightarrow> 'e QHoverEvent_Adaptor" where
  "setAccepted Q accepted a =
     (if can_issue (cb_setAccepted_864_0 a)
      then a\<lparr>base := snd (issue (cb_setAccepted_864_0 a) (cbs_setAccepted_864_0 Q)
                            accepted (base a))\<rparr>
      else a\<lparr>base := QHoverEvent_setAccepted Q accepted (base a)\<rparr>)"

definition cbs_setTimestamp_1103_0 :: "'e QHoverEvent \<Rightarrow> 64 word \<Rightarrow> 'e \<Rightarrow> unit \<times> 'e" where
  "cbs_setTimestamp_1103_0 Q timestamp e = ((), QHoverEvent_setTimestamp Q timestamp e)"

definition setTimestamp ::
    "'e QHoverEvent \<Rightarrow> 64 word \<Rightarrow> 'e QHoverEvent_Adaptor \<Rightarrow> 'e QHoverEvent_Adaptor" where
  "setTimestamp Q timestamp a =
     (if can_issue (cb_setTimestamp_1103_0 a)
      then a\<lparr>base := snd (issue (cb_setTimestamp_1103_0 a) (cbs_setTimestamp_1103_0 Q)
                            timestamp (base a))\<rparr>
      else a\<lparr>base := QHoverEvent_setTimestamp Q timestamp (base a)\<rparr>)"

subsection \<open>A sample event and a sample adaptor\<close>

text \<open>
  A plain hover event for the examples: it carries the accepted flag and the timestamp,
  is an update event, and is neither a begin nor an end event.
\<close>

record sample_event =
  accepted_flag :: bool
  timestamp_value :: "64 word"

definition sample_QHoverEvent :: "sample_event QHoverEvent" where
  "sample_QHoverEvent =
     \<lparr> QHoverEvent_isBeginEvent = (\<lambda>e. False),
       QHoverEvent_isEndEvent = (\<lambda>e. False),
       QHoverEvent_isUpdateEvent = (\<lambda>e. True),
       QHoverEvent_setAccepted = (\<lambda>accepted e. e\<lparr>accepted_flag := accepted\<rparr>),
       QHoverEvent_setTimestamp = (\<lambda>timestamp e. e\<lparr>timestamp_value := timestamp\<rparr>) \<rparr>"

text \<open>A callback slot with no script reimplementation installed.\<close>

definition no_callback :: "('e, 'a, 'r) Callback" where
  "no_callback = \<lparr> can_issue = False, issue = (\<lambda>f x e. f x e) \<rparr>"

definition sample_adaptor :: "sample_event QHoverEvent_Adaptor" where
  "sample_adaptor =
     \<lparr> base = \<lparr> accepted_flag = False, timestamp_value = 0 \<rparr>,
       cb_isBeginEvent_c0_0 = no_callback,
       cb_isEndEvent_c0_0 = no_callback,
       cb_isUpdateEvent_c0_0 = no_callback,
       cb_setAccepted_864_0 = no_callback,
       cb_setTimestamp_1103_0 = no_callback \<rparr>"

section \<open>Properties of the registry functions\<close>

lemma has_technology_iff: "Technologies_has_technology n reg \<longleftrightarrow> n \<in> set (map name reg)"
  by (induction reg) auto

lemma by_name_append_new:
  "\<not> Technologies_has_technology n reg \<Longrightarrow> name t = n \<Longrightarrow>
   Technologies_technology_by_name n (reg @ [t]) = Some (length reg)"
  by (induction reg) (auto split: if_splits)

lemma technology_names_loop_map: "technology_names_loop reg names = names @ map name reg"
  by (induction reg arbitrary: names) auto

lemma remove_distinct_absent:
  "distinct (map name reg) \<Longrightarrow> n \<notin> set (map name (Technologies_remove n reg))"
proof (induction reg)
  case Nil
  show ?case by simp
next
  case (Cons t ts)
  show ?case
  proof (cases "name t = n")
    case True
    with Cons.prems show ?thesis by auto
  next
    case False
    with Cons show ?thesis by auto
  qed
qed

subsection \<open>The registry invariant\<close>

lemma registry_ok_empty: "registry_ok []"
  by (simp add: registry_ok_def)

lemma registry_ok_add_new:
  "registry_ok reg \<Longrightarrow> registry_ok (snd (Technologies_add_new tech reg))"
  by (simp add: registry_ok_def Technologies_add_new_def has_technology_iff)

lemma remove_names_subset:
  "set (map name (Technologies_remove n reg)) \<subseteq> set (map name reg)"
  by (induction reg) auto

lemma registry_ok_remove:
  "registry_ok reg \<Longrightarrow> registry_ok (Technologies_remove n reg)"
  unfolding registry_ok_def
proof (induction reg)
  case Nil
  show ?case by simp
next
  case (Cons t ts)
  have "name t \<notin> set (map name (Technologies_remove n ts))"
    using Cons.prems remove_names_subset [of n ts] by auto
  with Cons show ?case by simp
qed

lemma registry_ok_clear: "registry_ok (Technologies_clear reg)"
  by (simp add: registry_ok_def Technologies_clear_def)

subsection \<open>Creating, registering, removing\<close>

text \<open>
  Claim C9. Creating a technology by name is the same as registering a
  default-constructed record whose name has been set to that name: the outcome (the
  reference to the stored copy, or the failure on a name that exists) and the registry
  state after the call are equal.
\<close>

theorem create_technology_is_register:
  "create_technology n reg = register_technology (set_name n Technology_new) reg"
  by (simp add: create_technology_def register_technology_def)

text \<open>
  Claim C6. Registering a record whose name is already registered fails with an error
  and leaves the registry, and with it the record stored under that name, as it was.
\<close>

theorem register_technology_duplicate_fails:
  assumes "has_technology (name tech) reg"
  shows "register_technology tech reg = (Inl (DuplicateName (name tech)), reg)"
  using assms
  by (simp add: register_technology_def has_technology_def Technologies_add_new_def)

theorem register_technology_duplicate_fails_witness:
  "has_technology ''X'' [set_name ''X'' Technology_new]
   \<and> register_technology ((set_name ''X'' Technology_new)\<lparr>description := ''second''\<rparr>)
        [set_name ''X'' Technology_new]
     = (Inl (DuplicateName ''X''), [set_name ''X'' Technology_new])"
  using register_technology_duplicate_fails
    [of "(set_name ''X'' Technology_new)\<lparr>description := ''second''\<rparr>"
        "[set_name ''X'' Technology_new]"]
  by (simp add: has_technology_def set_name_def Technology_new_def)

text \<open>
  Claim C7. After a successful creation under the name \<open>X\<close>, the name is registered, and
  the lookup by name returns the reference that the creation returned: a reference to a
  stored record whose name is \<open>X\<close>.
\<close>

theorem create_technology_registers:
  assumes "create_technology X reg = (Inr p, reg')"
  shows "has_technology X reg' \<and> technology_by_name X reg' = Some p
       \<and> p < length reg' \<and> name (reg' ! p) = X"
proof -
  let ?tech = "set_name X Technology_new"
  have nm: "name ?tech = X"
    by (simp add: set_name_def)
  from assms have absent: "\<not> Technologies_has_technology X reg"
    and p: "p = length reg" and reg': "reg' = reg @ [?tech]"
    by (auto simp: create_technology_def Technologies_add_new_def Let_def nm split: if_splits)
  have "has_technology X reg'"
    by (simp add: has_technology_def has_technology_iff reg' nm)
  moreover have "technology_by_name X reg' = Some p"
    using by_name_append_new [OF absent nm] by (simp add: technology_by_name_def reg' p)
  moreover have "p < length reg'"
    by (simp add: p reg')
  moreover have "name (reg' ! p) = X"
    by (simp add: p reg' nm)
  ultimately show ?thesis by simp
qed

theorem create_technology_registers_witness:
  "create_technology ''X'' [] = (Inr 0, [set_name ''X'' Technology_new])
   \<and> has_technology ''X'' [set_name ''X'' Technology_new]
   \<and> technology_by_name ''X'' [set_name ''X'' Technology_new] = Some 0
   \<and> name ([set_name ''X'' Technology_new] ! 0) = ''X''"
proof -
  have c: "create_technology ''X'' [] = (Inr 0, [set_name ''X'' Technology_new])"
    by (simp add: create_technology_def Technologies_add_new_def Let_def)
  show ?thesis
    using c create_technology_registers [OF c] by simp
qed

text \<open>
  Claim C8. In a registry (no two records of one name), removing a registered name leaves
  that name unregistered; and after clearing any registry the list of names is empty.
\<close>

theorem remove_and_clear_technologies:
  "(registry_ok reg \<and> has_technology X reg \<longrightarrow> \<not> has_technology X (remove_technology X reg))
   \<and> technology_names (clear_technologies reg) = []"
proof (intro conjI impI)
  assume "registry_ok reg \<and> has_technology X reg"
  then have "distinct (map name reg)"
    by (simp add: registry_ok_def)
  then show "\<not> has_technology X (remove_technology X reg)"
    using remove_distinct_absent [of reg X]
    by (simp add: has_technology_def remove_technology_def has_technology_iff)
next
  show "technology_names (clear_technologies reg) = []"
    by (simp add: technology_names_def clear_technologies_def Technologies_clear_def)
qed

theorem remove_and_clear_technologies_witness:
  "registry_ok [set_name ''X'' Technology_new, set_name ''Y'' Technology_new]
   \<and> has_technology ''X'' [set_name ''X'' Technology_new, set_name ''Y'' Technology_new]
   \<and> \<not> has_technology ''X''
        (remove_technology ''X'' [set_name ''X'' Technology_new, set_name ''Y'' Technology_new])
   \<and> technology_names
        (clear_technologies [set_name ''X'' Technology_new, set_name ''Y'' Technology_new]) = []"
proof -
  have ok: "registry_ok [set_name ''X'' Technology_new, set_name ''Y'' Technology_new]"
    by (simp add: registry_ok_def set_name_def)
  have has: "has_technology ''X'' [set_name ''X'' Technology_new, set_name ''Y'' Technology_new]"
    by (simp add: has_technology_def set_name_def)
  show ?thesis
    using ok has
      remove_and_clear_technologies
        [of "[set_name ''X'' Technology_new, set_name ''Y'' Technology_new]" "''X''"]
    by simp
qed

section \<open>Properties of the grid-list setters\<close>

lemma join_commas_Cons:
  "join_commas (e # es) = (if es = [] then e else e @ '','' @ join_commas es)"
  by (cases es) simp_all

lemma grid_entry_nonempty:
  "micron_to_string g \<noteq> [] \<Longrightarrow> grid_entry micron_to_string equals d g \<noteq> []"
  by (simp add: grid_entry_def)

lemma loop_step:
  "set_default_grid_list2_loop m eq d (g # gs) r =
     set_default_grid_list2_loop m eq d gs
       ((if r \<noteq> [] then r @ '','' else r) @ grid_entry m eq d g)"
  by (simp add: grid_entry_def Let_def)

lemma loop_join:
  assumes "\<forall>g \<in> set gs. m g \<noteq> []"
  shows "set_default_grid_list2_loop m eq d gs r =
     (if gs = [] then r
      else if r = [] then join_commas (map (grid_entry m eq d) gs)
      else r @ '','' @ join_commas (map (grid_entry m eq d) gs))"
  using assms
proof (induction gs arbitrary: r)
  case Nil
  show ?case by simp
next
  case (Cons g gs)
  have ne: "grid_entry m eq d g \<noteq> []"
    using Cons.prems by (simp add: grid_entry_nonempty)
  have rest: "\<forall>g \<in> set gs. m g \<noteq> []"
    using Cons.prems by simp
  show ?case
    unfolding loop_step
    by (simp only: Cons.IH [OF rest]) (simp add: ne join_commas_Cons)
qed

lemma loop_markers:
  assumes "\<forall>g \<in> set gs. CHR ''!'' \<notin> set (m g)"
  shows "count_list (set_default_grid_list2_loop m eq d gs r) CHR ''!'' =
     count_list r CHR ''!'' + length (filter (\<lambda>g. eq g d) gs)"
  using assms
proof (induction gs arbitrary: r)
  case Nil
  show ?case by simp
next
  case (Cons g gs)
  have rest: "\<forall>g \<in> set gs. CHR ''!'' \<notin> set (m g)"
    using Cons.prems by simp
  have here: "count_list (m g) CHR ''!'' = 0"
    using Cons.prems by (simp add: count_list_0_iff)
  show ?case
    unfolding loop_step
    by (simp only: Cons.IH [OF rest]) (simp add: here grid_entry_def)
qed

lemma grid_entry_flagged:
  assumes "micron_to_string g \<noteq> []" and "CHR ''!'' \<notin> set (micron_to_string g)"
  shows "entry_flagged (grid_entry micron_to_string equals d g) = equals g d"
proof (cases "equals g d")
  case True
  then show ?thesis
    by (simp add: entry_flagged_def grid_entry_def)
next
  case False
  from assms(1) obtain c cs where r: "rev (micron_to_string g) = c # cs"
    by (cases "rev (micron_to_string g)") auto
  then have "c \<in> set (micron_to_string g)"
    by (metis list.set_intros(1) set_rev)
  with assms(2) have "c \<noteq> CHR ''!''"
    by auto
  with False r show ?thesis
    by (simp add: entry_flagged_def grid_entry_def)
qed

subsection \<open>What the setters store\<close>

text \<open>
  Claim C1. For every list of grid values and every default grid, the two-argument
  setter stores the comma-separated text of the specification's encoder: the micron text
  of each input value in input order, nothing sorted and nothing dropped, with the marker
  \<open>!\<close> directly after the text of precisely the entries that the coordinate comparison
  holds equal to the default grid. The micron text of a number is never empty, which is
  the one property of the formatting function that the loop's comma test relies on.
\<close>

theorem set_default_grid_list2_encodes:
  assumes "\<forall>g \<in> set grids. micron_to_string g \<noteq> []"
  shows "set_default_grid_list2 micron_to_string equals tech grids default_grid
       = tech\<lparr>default_grids := encode_spec micron_to_string equals grids default_grid\<rparr>"
proof -
  have "set_default_grid_list2_loop micron_to_string equals default_grid grids []
      = join_commas (map (grid_entry micron_to_string equals default_grid) grids)"
    using loop_join [OF assms, of equals default_grid "[]"] by simp
  then show ?thesis
    by (simp add: set_default_grid_list2_def set_default_grids_def encode_spec_def)
qed

theorem set_default_grid_list2_encodes_witness:
  "sample_micron_to_string (1 / 1000) \<noteq> []
   \<and> sample_micron_to_string (1 / 2) \<noteq> []
   \<and> sample_micron_to_string 1 \<noteq> []
   \<and> set_default_grid_list2 sample_micron_to_string (tolerance_equals (1 / 100000))
        Technology_new [1 / 1000, 1 / 2, 1] (1 / 2)
     = Technology_new\<lparr>default_grids := ''0.001,0.5!,1''\<rparr>"
proof -
  have texts: "\<forall>g \<in> set [1 / 1000, 1 / 2, 1]. sample_micron_to_string g \<noteq> []"
    by (simp add: sample_micron_to_string_def)
  have spec: "encode_spec sample_micron_to_string (tolerance_equals (1 / 100000))
      [1 / 1000, 1 / 2, 1] (1 / 2) = ''0.001,0.5!,1''"
    by (simp add: encode_spec_def grid_entry_def sample_micron_to_string_def
        tolerance_equals_def)
  show ?thesis
    using texts
      set_default_grid_list2_encodes
        [OF texts, of "tolerance_equals (1 / 100000)" Technology_new "1 / 2"]
    by (simp add: spec)
qed

text \<open>
  Claim C4. The one-argument setter is the two-argument setter at default grid zero; what
  it stores does not depend on the grid text stored before, so an earlier default-grid
  marking is gone; and when no grid value of the list compares equal to zero (and the
  micron texts hold no marker character) the stored text marks no entry.
\<close>

theorem set_default_grid_list_resets_default:
  "set_default_grid_list micron_to_string equals tech grids
     = set_default_grid_list2 micron_to_string equals tech grids 0
   \<and> set_default_grid_list micron_to_string equals (tech\<lparr>default_grids := previous\<rparr>) grids
     = set_default_grid_list micron_to_string equals tech grids
   \<and> ((\<forall>g \<in> set grids. \<not> equals g 0 \<and> CHR ''!'' \<notin> set (micron_to_string g)) \<longrightarrow>
        marker_count (default_grids (set_default_grid_list micron_to_string equals tech grids)) = 0)"
proof (intro conjI impI)
  show "set_default_grid_list micron_to_string equals tech grids
     = set_default_grid_list2 micron_to_string equals tech grids 0"
    by (simp add: set_default_grid_list_def)
  show "set_default_grid_list micron_to_string equals (tech\<lparr>default_grids := previous\<rparr>) grids
     = set_default_grid_list micron_to_string equals tech grids"
    by (simp add: set_default_grid_list_def set_default_grid_list2_def set_default_grids_def)
next
  assume h: "\<forall>g \<in> set grids. \<not> equals g 0 \<and> CHR ''!'' \<notin> set (micron_to_string g)"
  then have no_marker: "\<forall>g \<in> set grids. CHR ''!'' \<notin> set (micron_to_string g)"
    by simp
  have none: "filter (\<lambda>g. equals g 0) grids = []"
    using h by (simp add: filter_empty_conv)
  show "marker_count (default_grids (set_default_grid_list micron_to_string equals tech grids)) = 0"
    using loop_markers [OF no_marker, of equals 0 "[]"] none
    by (simp add: marker_count_def set_default_grid_list_def set_default_grid_list2_def
        set_default_grids_def)
qed

theorem set_default_grid_list_resets_default_witness:
  "\<not> tolerance_equals (1 / 100000) (1 / 2) 0
   \<and> \<not> tolerance_equals (1 / 100000) 1 0
   \<and> CHR ''!'' \<notin> set (sample_micron_to_string (1 / 2))
   \<and> CHR ''!'' \<notin> set (sample_micron_to_string 1)
   \<and> default_grids (set_default_grid_list2 sample_micron_to_string (tolerance_equals (1 / 100000))
        Technology_new [1 / 2, 1] 1) = ''0.5,1!''
   \<and> default_grids (set_default_grid_list sample_micron_to_string (tolerance_equals (1 / 100000))
        (set_default_grid_list2 sample_micron_to_string (tolerance_equals (1 / 100000))
           Technology_new [1 / 2, 1] 1) [1 / 2, 1]) = ''0.5,1''
   \<and> marker_count (default_grids (set_default_grid_list sample_micron_to_string
        (tolerance_equals (1 / 100000))
        (set_default_grid_list2 sample_micron_to_string (tolerance_equals (1 / 100000))
           Technology_new [1 / 2, 1] 1) [1 / 2, 1])) = 0"
  using set_default_grid_list_resets_default
    [of sample_micron_to_string "tolerance_equals (1 / 100000)"
        "set_default_grid_list2 sample_micron_to_string (tolerance_equals (1 / 100000))
          Technology_new [1 / 2, 1] 1" "[1 / 2, 1]" "[]"]
  by (simp add: set_default_grid_list_def set_default_grid_list2_def set_default_grids_def
      sample_micron_to_string_def tolerance_equals_def marker_count_def)

text \<open>
  Claim C5 as stated fails: a grid list that holds the default grid twice gets the marker
  on both entries, so more than one entry is flagged.
\<close>

theorem set_default_grid_list2_two_defaults:
  "default_grids (set_default_grid_list2 sample_micron_to_string
        (tolerance_equals (1 / 100000)) Technology_new [1, 1] 1) = ''1!,1!''
   \<and> \<not> marker_count (default_grids (set_default_grid_list2 sample_micron_to_string
        (tolerance_equals (1 / 100000)) Technology_new [1, 1] 1)) \<le> 1"
  by (simp add: marker_count_def set_default_grid_list2_def set_default_grids_def
      sample_micron_to_string_def tolerance_equals_def)

text \<open>
  Claim C5, amended. The two-argument setter flags exactly the entries of the list that
  compare equal to the default grid. The stored text is the comma-separated sequence of
  the entries in list order, the entry of a grid value being its micron text with the
  marker directly after it when the value equals the default grid and the bare micron
  text otherwise; so, position by position, an entry is flagged precisely when its grid
  value equals the default grid, every flag sits on an entry of the list, and the number
  of markers in the stored text is the number of such values. It is zero when the default
  grid equals no entry of the list (the call still succeeds), and it exceeds one when
  several entries equal the default grid. The micron text of a number is never empty and
  holds no marker character.
\<close>

theorem set_default_grid_list2_flags_equal_entries:
  assumes "\<forall>g \<in> set grids.
      micron_to_string g \<noteq> [] \<and> CHR ''!'' \<notin> set (micron_to_string g)"
  shows "set_default_grid_list2 micron_to_string equals tech grids default_grid
       = tech\<lparr>default_grids :=
           join_commas (map (grid_entry micron_to_string equals default_grid) grids)\<rparr>
     \<and> map entry_flagged (map (grid_entry micron_to_string equals default_grid) grids)
       = map (\<lambda>g. equals g default_grid) grids
     \<and> marker_count
         (default_grids (set_default_grid_list2 micron_to_string equals tech grids default_grid))
       = length (filter (\<lambda>g. equals g default_grid) grids)"
proof (intro conjI)
  have texts: "\<forall>g \<in> set grids. micron_to_string g \<noteq> []"
    using assms by simp
  have clean: "\<forall>g \<in> set grids. CHR ''!'' \<notin> set (micron_to_string g)"
    using assms by simp
  have "set_default_grid_list2_loop micron_to_string equals default_grid grids []
      = join_commas (map (grid_entry micron_to_string equals default_grid) grids)"
    using loop_join [OF texts, of equals default_grid "[]"] by simp
  then show "set_default_grid_list2 micron_to_string equals tech grids default_grid
       = tech\<lparr>default_grids :=
           join_commas (map (grid_entry micron_to_string equals default_grid) grids)\<rparr>"
    by (simp add: set_default_grid_list2_def set_default_grids_def)
  show "map entry_flagged (map (grid_entry micron_to_string equals default_grid) grids)
       = map (\<lambda>g. equals g default_grid) grids"
    using assms by (simp add: grid_entry_flagged)
  show "marker_count
         (default_grids (set_default_grid_list2 micron_to_string equals tech grids default_grid))
       = length (filter (\<lambda>g. equals g default_grid) grids)"
    using loop_markers [OF clean, of equals default_grid "[]"]
    by (simp add: marker_count_def set_default_grid_list2_def set_default_grids_def)
qed

theorem set_default_grid_list2_flags_equal_entries_witness:
  "sample_micron_to_string (1 / 1000) \<noteq> []
   \<and> sample_micron_to_string (1 / 2) \<noteq> []
   \<and> sample_micron_to_string 1 \<noteq> []
   \<and> CHR ''!'' \<notin> set (sample_micron_to_string (1 / 1000))
   \<and> CHR ''!'' \<notin> set (sample_micron_to_string (1 / 2))
   \<and> CHR ''!'' \<notin> set (sample_micron_to_string 1)
   \<and> set_default_grid_list2 sample_micron_to_string (tolerance_equals (1 / 100000))
        Technology_new [1 / 1000, 1 / 2, 1] (1 / 2)
     = Technology_new\<lparr>default_grids := ''0.001,0.5!,1''\<rparr>
   \<and> map entry_flagged [''0.001'', ''0.5!'', ''1''] = [False, True, False]
   \<and> marker_count (default_grids (set_default_grid_list2 sample_micron_to_string
        (tolerance_equals (1 / 100000)) Technology_new [1 / 1000, 1 / 2, 1] (1 / 2))) = 1"
proof -
  have texts: "\<forall>g \<in> set [1 / 1000, 1 / 2, 1].
      sample_micron_to_string g \<noteq> [] \<and> CHR ''!'' \<notin> set (sample_micron_to_string g)"
    by (simp add: sample_micron_to_string_def)
  have entries: "map (grid_entry sample_micron_to_string (tolerance_equals (1 / 100000)) (1 / 2))
      [1 / 1000, 1 / 2, 1] = [''0.001'', ''0.5!'', ''1'']"
    by (simp add: grid_entry_def sample_micron_to_string_def tolerance_equals_def)
  have equal: "map (\<lambda>g. tolerance_equals (1 / 100000) g (1 / 2)) [1 / 1000, 1 / 2, 1]
      = [False, True, False]"
    by (simp add: tolerance_equals_def)
  have one: "length (filter (\<lambda>g. tolerance_equals (1 / 100000) g (1 / 2)) [1 / 1000, 1 / 2, 1])
      = 1"
    by (simp add: tolerance_equals_def)
  show ?thesis
    using texts
      set_default_grid_list2_flags_equal_entries
        [OF texts, of "tolerance_equals (1 / 100000)" Technology_new "1 / 2"]
    unfolding entries equal one
    by (simp add: marker_count_def)
qed

section \<open>Properties of the XML adaptor\<close>

text \<open>
  Claim C3. On a null record pointer the serializer returns the empty string; on a record
  it returns the document under the root element, which is never the empty string (in
  particular not when the record has a name).
\<close>

theorem technology_to_xml_null_and_nonnull:
  "technology_to_xml xml_elements None = []
   \<and> technology_to_xml xml_elements (Some tech) \<noteq> []"
  by (simp add: technology_to_xml_def XMLStruct_write_def)

section \<open>Properties of the adaptor class\<close>

text \<open>
  Claim C10. For each of the five virtual methods, when its callback cannot issue, the
  adaptor's override gives the result of the base class implementation (the three
  predicates) or has exactly its effect on the event, leaving the rest of the adaptor
  untouched (the two setters).
\<close>

theorem adaptor_without_callback_is_base:
  "(\<not> can_issue (cb_isBeginEvent_c0_0 a) \<longrightarrow>
      isBeginEvent Q a = QHoverEvent_isBeginEvent Q (base a))
   \<and> (\<not> can_issue (cb_isEndEvent_c0_0 a) \<longrightarrow>
      isEndEvent Q a = QHoverEvent_isEndEvent Q (base a))
   \<and> (\<not> can_issue (cb_isUpdateEvent_c0_0 a) \<longrightarrow>
      isUpdateEvent Q a = QHoverEvent_isUpdateEvent Q (base a))
   \<and> (\<not> can_issue (cb_setAccepted_864_0 a) \<longrightarrow>
      setAccepted Q accepted a = a\<lparr>base := QHoverEvent_setAccepted Q accepted (base a)\<rparr>)
   \<and> (\<not> can_issue (cb_setTimestamp_1103_0 a) \<longrightarrow>
      setTimestamp Q timestamp a = a\<lparr>base := QHoverEvent_setTimestamp Q timestamp (base a)\<rparr>)"
  by (simp add: isBeginEvent_def isEndEvent_def isUpdateEvent_def setAccepted_def
      setTimestamp_def)

theorem adaptor_without_callback_is_base_witness:
  "\<not> can_issue (cb_isBeginEvent_c0_0 sample_adaptor)
   \<and> \<not> can_issue (cb_isEndEvent_c0_0 sample_adaptor)
   \<and> \<not> can_issue (cb_isUpdateEvent_c0_0 sample_adaptor)
   \<and> \<not> can_issue (cb_setAccepted_864_0 sample_adaptor)
   \<and> \<not> can_issue (cb_setTimestamp_1103_0 sample_adaptor)
   \<and> isBeginEvent sample_QHoverEvent sample_adaptor = False
   \<and> isEndEvent sample_QHoverEvent sample_adaptor = False
   \<and> isUpdateEvent sample_QHoverEvent sample_adaptor = True
   \<and> base (setAccepted sample_QHoverEvent True sample_adaptor)
       = \<lparr> accepted_flag = True, timestamp_value = 0 \<rparr>
   \<and> base (setTimestamp sample_QHoverEvent 42 sample_adaptor)
       = \<lparr> accepted_flag = False, timestamp_value = 42 \<rparr>"
  using adaptor_without_callback_is_base [of sample_adaptor sample_QHoverEvent True 42]
  by (simp add: sample_adaptor_def sample_QHoverEvent_def no_callback_def)

end
